theory Spec2Isabelle
  imports Main
begin

section \<open>Strings of code points\<close>

text \<open>
  A Python \<open>str\<close> is a sequence of Unicode code points, so names are lists of code
  points (\<open>nat\<close>), not lists of 8-bit \<open>char\<close>. \<open>ascii\<close> embeds an ASCII literal.
\<close>

type_synonym ustr = "nat list"

definition ascii :: "string \<Rightarrow> ustr" where
  "ascii s = map of_char s"

text \<open>Truthiness of a \<open>str | None\<close> value: \<open>None\<close> and \<open>""\<close> are falsy.\<close>

fun truthy :: "ustr option \<Rightarrow> bool" where
  "truthy None = False"
| "truthy (Some s) = (s \<noteq> [])"

text \<open>\<open>str(n)\<close> for a Python int: decimal digits, with a minus sign when negative.\<close>

function str_nat :: "nat \<Rightarrow> ustr" where
  "str_nat n = (if n < 10 then [48 + n] else str_nat (n div 10) @ [48 + n mod 10])"
  by pat_completeness auto
termination
  by (relation "measure (\<lambda>n. n)") auto

declare str_nat.simps [simp del]

definition str_int :: "int \<Rightarrow> ustr" where
  "str_int i = (if i < 0 then 45 # str_nat (nat (- i)) else str_nat (nat i))"

text \<open>
  \<open>s.strip(chars)\<close>: the longest prefix and the longest suffix made of characters
  of \<open>chars\<close> are removed.
\<close>

definition strip :: "(nat \<Rightarrow> bool) \<Rightarrow> ustr \<Rightarrow> ustr" where
  "strip ws s = rev (dropWhile ws (rev (dropWhile ws s)))"

text \<open>
  \<open>s.strip()\<close> with no argument removes the characters for which \<open>str.isspace\<close>
  holds (the Unicode white-space set of CPython).
\<close>

definition py_isspace :: "nat \<Rightarrow> bool" where
  "py_isspace c \<longleftrightarrow>
     (0x09 \<le> c \<and> c \<le> 0x0D) \<or> (0x1C \<le> c \<and> c \<le> 0x20) \<or> c = 0x85 \<or> c = 0xA0
     \<or> c = 0x1680 \<or> (0x2000 \<le> c \<and> c \<le> 0x200A) \<or> c = 0x2028 \<or> c = 0x2029
     \<or> c = 0x202F \<or> c = 0x205F \<or> c = 0x3000"

text \<open>\<open>" ".join([a, b])\<close>\<close>

definition join_space :: "ustr \<Rightarrow> ustr \<Rightarrow> ustr" where
  "join_space a b = a @ [0x20] @ b"

section \<open>Name normalisation (\<open>Puppet._filter_name\<close>)\<close>

text \<open>
  \<open>unicodedata.category(c) == "Cf"\<close>: the code points of general category Cf
  (format) in the Unicode character database, version 15.
\<close>

definition category_Cf :: "nat \<Rightarrow> bool" where
  "category_Cf c \<longleftrightarrow>
     c = 0xAD \<or> (0x600 \<le> c \<and> c \<le> 0x605) \<or> c = 0x61C \<or> c = 0x6DD \<or> c = 0x70F
     \<or> (0x890 \<le> c \<and> c \<le> 0x891) \<or> c = 0x8E2 \<or> c = 0x180E
     \<or> (0x200B \<le> c \<and> c \<le> 0x200F) \<or> (0x202A \<le> c \<and> c \<le> 0x202E)
     \<or> (0x2060 \<le> c \<and> c \<le> 0x2064) \<or> (0x2066 \<le> c \<and> c \<le> 0x206F)
     \<or> c = 0xFEFF \<or> (0xFFF9 \<le> c \<and> c \<le> 0xFFFB) \<or> c = 0x110BD \<or> c = 0x110CD
     \<or> (0x13430 \<le> c \<and> c \<le> 0x1343F) \<or> (0x1BCA0 \<le> c \<and> c \<le> 0x1BCA3)
     \<or> (0x1D173 \<le> c \<and> c \<le> 0x1D17A) \<or> c = 0xE0001
     \<or> (0xE0020 \<le> c \<and> c \<le> 0xE007F)"

text \<open>The local \<open>whitespace\<close> string of \<open>_filter_name\<close>, in the order of the source.\<close>

definition whitespace :: ustr where
  "whitespace =
     [0x09, 0x0A, 0x0D, 0x0B, 0x0C, 0x20, 0xA0, 0x34F, 0x180E, 0x2063, 0x202F, 0x205F,
      0x2800, 0x3000, 0x3164, 0xFEFF, 0x2000, 0x2001,
      0x2002, 0x2003, 0x2004, 0x2005, 0x2006, 0x2007, 0x2008, 0x2009, 0x200A, 0x200B,
      0x200C, 0x200D, 0x200E, 0x200F,
      0xFE0F]"

text \<open>The local tuple \<open>allowed_other_format\<close>: zero-width joiner and non-joiner.\<close>

definition allowed_other_format :: ustr where
  "allowed_other_format = [0x200D, 0x200C]"

text \<open>
  \<open>_filter_name(name)\<close>. The argument is \<open>str | None\<close> (a profile may have no
  first or last name); a falsy name gives \<open>""\<close>.
\<close>

definition filter_name :: "ustr option \<Rightarrow> ustr" where
  "filter_name name =
     (case name of
        None \<Rightarrow> []
      | Some s \<Rightarrow>
          if s = [] then []
          else filter (\<lambda>c. \<not> category_Cf c \<or> c \<in> set allowed_other_format)
                      (strip (\<lambda>c. c \<in> set whitespace) s))"

section \<open>Data model\<close>

text \<open>
  The puppet row of \<open>db/puppet.py\<close> (class \<open>Puppet\<close>, an attrs dataclass), which
  the live \<open>Puppet\<close> of \<open>puppet.py\<close> extends. The key \<open>id\<close> is called \<open>tgid\<close> here, after
  the property of that name. Nullable columns are options.
\<close>

record puppet =
  tgid :: int
  is_registered :: bool
  displayname :: "ustr option"
  displayname_source :: "int option"
  displayname_contact :: bool
  displayname_quality :: int
  disable_updates :: bool
  username :: "ustr option"
  photo_id :: "ustr option"
  is_bot :: "bool option"
  custom_mxid :: "ustr option"
  access_token :: "ustr option"
  next_batch :: "ustr option"
  base_url :: "ustr option"

text \<open>
  The incoming photo, \<open>UserProfilePhoto | UserProfilePhotoEmpty\<close>; an absent photo
  (\<open>None\<close>) is the \<open>None\<close> of \<open>photo option\<close>, and \<open>OtherPhoto\<close> stands for an object of
  any other type.
\<close>

datatype photo = UserProfilePhotoEmpty | UserProfilePhoto int | OtherPhoto

text \<open>The fields of the remote profile (\<open>telethon\<close>'s \<open>User\<close>) that the code reads.\<close>

record user =
  user_id :: int
  first_name :: "ustr option"
  last_name :: "ustr option"
  user_username :: "ustr option"
  phone :: "ustr option"
  deleted :: bool
  bot :: bool
  contact :: bool
  user_photo :: "photo option"

text \<open>
  \<open>update_displayname\<close> takes \<open>User | UpdateUserName\<close>; of an \<open>UpdateUserName\<close> only its
  type is looked at, the profile is then fetched again.
\<close>

datatype info = User user | UpdateUserName

text \<open>The updating source (\<open>au.AbstractUser\<close>): its id and its two bot flags.\<close>

record abstract_user =
  source_tgid :: int
  is_relaybot :: bool
  source_is_bot :: bool

text \<open>
  \<open>SimpleTemplate\<close> of the mautrix library: the template string split at its placeholder;
  \<open>format_full\<close> puts the value between the two parts.
\<close>

record simple_template =
  prefix :: ustr
  suffix :: ustr

definition format_full :: "simple_template \<Rightarrow> ustr \<Rightarrow> ustr" where
  "format_full t s = prefix t @ s @ suffix t"

text \<open>The configuration keys under \<open>bridge.\<close> that the modelled methods read.\<close>

record config =
  displayname_preference :: "ustr list"
  displayname_template :: simple_template
  displayname_max_length :: int
  allow_avatar_remove :: bool

text \<open>
  Python exceptions. \<open>MatrixError\<close> is the error of the presentation client, the only one
  the \<open>except MatrixError\<close> handlers catch; \<open>KeyError\<close> is a failed dict lookup;
  \<open>OtherException\<close> is any other subclass of \<open>Exception\<close>.
\<close>

datatype exn = MatrixError | KeyError ustr | OtherException

text \<open>
  Each awaited external call happens at most once in one update, so the outside world is
  the outcome of each of them: \<open>None\<close> (or \<open>Inr\<close>) when the call returns, the exception when
  it raises.
\<close>

record world =
  get_entity :: "exn + user"
  set_displayname :: "exn option"
  get_input_entity :: "exn option"
  transfer_file_to_matrix :: "exn + ustr option"
  set_avatar_url :: "exn option"
  save :: "exn option"

text \<open>
  The external calls an update makes, in order. \<open>TransferFile\<close> carries the photo id in
  its string form; \<open>Save\<close> carries the row written.
\<close>

datatype call =
    GetEntity int
  | SetDisplayname ustr
  | GetInputEntity
  | TransferFile ustr
  | SetAvatarUrl ustr
  | Save puppet

section \<open>Display-name resolution (\<open>Puppet.get_displayname\<close>)\<close>

text \<open>
  The dict \<open>data\<close>: a key that is not one of the six gives \<open>None\<close> (the lookup raises
  \<open>KeyError\<close>), a known key gives its value, itself \<open>str | None\<close>.
\<close>

definition data :: "user \<Rightarrow> ustr \<Rightarrow> ustr option option" where
  "data info key =
     (let fn = filter_name (first_name info);
          ln = filter_name (last_name info)
      in if key = ascii ''phone number'' then Some (phone info)
         else if key = ascii ''username'' then Some (user_username info)
         else if key = ascii ''full name'' then Some (Some (strip py_isspace (join_space fn ln)))
         else if key = ascii ''full name reversed''
           then Some (Some (strip py_isspace (join_space ln fn)))
         else if key = ascii ''first name'' then Some (Some fn)
         else if key = ascii ''last name'' then Some (Some ln)
         else None)"

text \<open>
  The loop over \<open>preferences\<close>, with the loop variables \<open>name\<close> and \<open>quality\<close>: it stops
  at the first truthy value, and otherwise leaves in \<open>name\<close> the last value looked up.
\<close>

fun preference_loop ::
  "(ustr \<Rightarrow> ustr option option) \<Rightarrow> ustr list \<Rightarrow> ustr option \<Rightarrow> int \<Rightarrow> exn + (ustr option \<times> int)"
where
  "preference_loop d [] name quality = Inr (name, quality)"
| "preference_loop d (preference # rest) name quality =
     (case d preference of
        None \<Rightarrow> Inl (KeyError preference)
      | Some v \<Rightarrow> if truthy v then Inr (v, quality) else preference_loop d rest v (quality - 1))"

definition get_displayname :: "config \<Rightarrow> user \<Rightarrow> bool \<Rightarrow> exn + (ustr \<times> int)" where
  "get_displayname cfg info enable_format =
     (case preference_loop (data info) (displayname_preference cfg) None 99 of
        Inl e \<Rightarrow> Inl e
      | Inr (name, quality) \<Rightarrow>
          (let (name', quality') =
                 (if deleted info
                    then (ascii ''Deleted account '' @ str_int (user_id info), 99)
                  else (case name of
                          None \<Rightarrow> (str_int (user_id info), 0)
                        | Some s \<Rightarrow> if s = [] then (str_int (user_id info), 0) else (s, quality)))
           in Inr (if enable_format then format_full (displayname_template cfg) name' else name',
                   quality')))"

section \<open>Display-name update (\<open>Puppet.update_displayname\<close>)\<close>

text \<open>Truthiness of \<open>displayname_source\<close>, an id or \<open>None\<close>: \<open>None\<close> and \<open>0\<close> are falsy.\<close>

fun truthy_id :: "int option \<Rightarrow> bool" where
  "truthy_id None = False"
| "truthy_id (Some i) = (i \<noteq> 0)"

text \<open>
  The \<open>if\<close>/\<open>elif\<close> chain that sets \<open>allow_because\<close>: the reason when the update is
  allowed, \<open>None\<close> where the chain ends in \<open>return False\<close>.
\<close>

definition allow_because :: "puppet \<Rightarrow> abstract_user \<Rightarrow> info \<Rightarrow> string option" where
  "allow_because p source info =
     (if is_relaybot source \<or> source_is_bot source then Some ''user is bot''
      else if displayname_source p = Some (source_tgid source)
        then Some ''user is the primary source''
      else if (case info of UpdateUserName \<Rightarrow> False | User u \<Rightarrow> \<not> contact u)
        then Some ''user is not a contact''
      else if \<not> truthy_id (displayname_source p) then Some ''no primary source set''
      else if \<not> truthy (displayname p) then Some ''user has no name''
      else None)"

text \<open>
  \<open>if isinstance(info, UpdateUserName): info = await source.client.get_entity(...)\<close>:
  the profile the rest of the method works on, with the call made to get it.
\<close>

definition fetch_info :: "world \<Rightarrow> puppet \<Rightarrow> info \<Rightarrow> (exn + user) \<times> call list" where
  "fetch_info w p info =
     (case info of
        User u \<Rightarrow> (Inr u, [])
      | UpdateUserName \<Rightarrow> (get_entity w, [GetEntity (tgid p)]))"

text \<open>
  The contact tracking on \<open>displayname_contact\<close>: the puppet after it, \<open>None\<close> where it
  ends in \<open>return False\<close>.
\<close>

definition track_contact :: "puppet \<Rightarrow> user \<Rightarrow> puppet option" where
  "track_contact p u =
     (if \<not> contact u then Some (p\<lparr>displayname_contact := False\<rparr>)
      else if \<not> displayname_contact p then
        (if \<not> truthy (displayname p) then Some (p\<lparr>displayname_contact := True\<rparr>) else None)
      else Some p)"

text \<open>\<open>s[:n]\<close>: a negative \<open>n\<close> counts from the end.\<close>

definition py_slice_to :: "ustr \<Rightarrow> int \<Rightarrow> ustr" where
  "py_slice_to s n = (if n < 0 then take (nat (int (length s) + n)) s else take (nat n) s)"

text \<open>
  The end of the method, from the comparison of the candidate with the stored name on:
  the overwrite with its push to the presentation layer and the rollback on
  \<open>MatrixError\<close>, else the stamp of the source, else \<open>return False\<close>. An exception
  other than \<open>MatrixError\<close> leaves the method with the three fields already written.
\<close>

definition commit_displayname ::
  "config \<Rightarrow> world \<Rightarrow> puppet \<Rightarrow> abstract_user \<Rightarrow> ustr \<Rightarrow> int \<Rightarrow> (exn + bool) \<times> puppet \<times> call list"
where
  "commit_displayname cfg w p source dn quality =
     (if Some dn \<noteq> displayname p \<and> quality \<ge> displayname_quality p then
        (let p1 = p\<lparr>displayname := Some dn,
                    displayname_source := Some (source_tgid source),
                    displayname_quality := quality\<rparr>;
             cs = [SetDisplayname (py_slice_to dn (displayname_max_length cfg))]
         in case set_displayname w of
              None \<Rightarrow> (Inr True, p1, cs)
            | Some MatrixError \<Rightarrow>
                (Inr True,
                 p1\<lparr>displayname := Some [], displayname_source := None,
                    displayname_quality := 0\<rparr>, cs)
            | Some e \<Rightarrow> (Inl e, p1, cs))
      else if is_relaybot source \<or> displayname_source p = None then
        (Inr True, p\<lparr>displayname_source := Some (source_tgid source)\<rparr>, [])
      else (Inr False, p, []))"

text \<open>
  The method returns its result (or the exception it raises), the puppet as it has left
  it, and the external calls it made.
\<close>

definition update_displayname ::
  "config \<Rightarrow> world \<Rightarrow> puppet \<Rightarrow> abstract_user \<Rightarrow> info \<Rightarrow> (exn + bool) \<times> puppet \<times> call list"
where
  "update_displayname cfg w p source info =
     (if disable_updates p then (Inr False, p, [])
      else case allow_because p source info of
        None \<Rightarrow> (Inr False, p, [])
      | Some reason \<Rightarrow>
          (case fetch_info w p info of
             (Inl e, cs) \<Rightarrow> (Inl e, p, cs)
           | (Inr u, cs) \<Rightarrow>
               (case track_contact p u of
                  None \<Rightarrow> (Inr False, p, cs)
                | Some p' \<Rightarrow>
                    (case get_displayname cfg u True of
                       Inl e \<Rightarrow> (Inl e, p', cs)
                     | Inr (dn, quality) \<Rightarrow>
                         (case commit_displayname cfg w p' source dn quality of
                            (r, p'', cs') \<Rightarrow> (r, p'', cs @ cs'))))))"

section \<open>Avatar update (\<open>Puppet.update_avatar\<close>)\<close>

text \<open>
  The \<open>photo_id\<close> string of the incoming photo; \<open>None\<close> for a photo of unknown type,
  where the method warns and returns \<open>False\<close>.
\<close>

fun incoming_photo_id :: "photo option \<Rightarrow> ustr option" where
  "incoming_photo_id None = Some []"
| "incoming_photo_id (Some UserProfilePhotoEmpty) = Some []"
| "incoming_photo_id (Some (UserProfilePhoto n)) = Some (str_int n)"
| "incoming_photo_id (Some OtherPhoto) = None"

definition update_avatar ::
  "config \<Rightarrow> world \<Rightarrow> puppet \<Rightarrow> abstract_user \<Rightarrow> photo option \<Rightarrow> (exn + bool) \<times> puppet \<times> call list"
where
  "update_avatar cfg w p source ph =
     (if disable_updates p then (Inr False, p, [])
      else case incoming_photo_id ph of
        None \<Rightarrow> (Inr False, p, [])
      | Some pid \<Rightarrow>
          if pid = [] \<and> \<not> allow_avatar_remove cfg then (Inr False, p, [])
          else if photo_id p \<noteq> Some pid then
            (if pid = [] then
               (let p1 = p\<lparr>photo_id := Some []\<rparr>; cs = [SetAvatarUrl []]
                in case set_avatar_url w of
                     None \<Rightarrow> (Inr True, p1, cs)
                   | Some MatrixError \<Rightarrow> (Inr True, p1\<lparr>photo_id := Some []\<rparr>, cs)
                   | Some e \<Rightarrow> (Inl e, p1, cs))
             else
               (case get_input_entity w of
                  Some e \<Rightarrow> (Inl e, p, [GetInputEntity])
                | None \<Rightarrow>
                    (case transfer_file_to_matrix w of
                       Inl e \<Rightarrow> (Inl e, p, [GetInputEntity, TransferFile pid])
                     | Inr None \<Rightarrow> (Inr False, p, [GetInputEntity, TransferFile pid])
                     | Inr (Some mxc) \<Rightarrow>
                         (let p1 = p\<lparr>photo_id := Some pid\<rparr>;
                              cs = [GetInputEntity, TransferFile pid, SetAvatarUrl mxc]
                          in case set_avatar_url w of
                               None \<Rightarrow> (Inr True, p1, cs)
                             | Some MatrixError \<Rightarrow> (Inr True, p1\<lparr>photo_id := Some []\<rparr>, cs)
                             | Some e \<Rightarrow> (Inl e, p1, cs)))))
          else (Inr False, p, []))"

section \<open>\<open>Puppet.update_info\<close>\<close>


section \<open>The identity cache (\<open>Puppet.get_by_tgid\<close>)\<close>

text \<open>
  The two class-level dicts, the \<open>puppet\<close> table keyed by \<open>id\<close>, and the queries sent to
  the database, in order.
\<close>

datatype query = Fetch int | Insert puppet

record bridge =
  by_tgid :: "int \<rightharpoonup> puppet"
  by_custom_mxid :: "ustr \<rightharpoonup> puppet"
  table :: "int \<rightharpoonup> puppet"
  queries :: "query list"

text \<open>
  \<open>_add_to_cache\<close>; the last lines of \<open>__init__\<close> make the same two writes, so every
  constructed puppet is in the cache.
\<close>

definition add_to_cache :: "puppet \<Rightarrow> bridge \<Rightarrow> bridge" where
  "add_to_cache p b =
     (let b1 = b\<lparr>by_tgid := (by_tgid b)(tgid p \<mapsto> p)\<rparr>
      in case custom_mxid p of
           None \<Rightarrow> b1
         | Some m \<Rightarrow>
             if m = [] then b1 else b1\<lparr>by_custom_mxid := (by_custom_mxid b1)(m \<mapsto> p)\<rparr>)"

text \<open>\<open>cls(tgid)\<close>: the defaults of \<open>__init__\<close>.\<close>

definition new_puppet :: "int \<Rightarrow> puppet" where
  "new_puppet i =
     \<lparr>tgid = i, is_registered = False, displayname = None, displayname_source = None,
      displayname_contact = True, displayname_quality = 0, disable_updates = False,
      username = None, photo_id = None, is_bot = Some False, custom_mxid = None,
      access_token = None, next_batch = None, base_url = None\<rparr>"

text \<open>
  The body of \<open>get_by_tgid\<close>, run alone. \<open>super().get_by_tgid\<close> is the \<open>SELECT\<close> by id,
  whose row is built into a puppet by \<open>__init__\<close>; \<open>insert\<close> is the \<open>INSERT\<close>.
\<close>

definition get_by_tgid :: "bridge \<Rightarrow> int option \<Rightarrow> bool \<Rightarrow> puppet option \<times> bridge" where
  "get_by_tgid b tg create =
     (case tg of
        None \<Rightarrow> (None, b)
      | Some i \<Rightarrow>
          (case by_tgid b i of
             Some p \<Rightarrow> (Some p, b)
           | None \<Rightarrow>
               (let b1 = b\<lparr>queries := queries b @ [Fetch i]\<rparr>
                in case table b1 i of
                     Some row \<Rightarrow> (Some row, add_to_cache row (add_to_cache row b1))
                   | None \<Rightarrow>
                       if create then
                         (let p = new_puppet i;
                              b2 = add_to_cache p b1;
                              b3 = b2\<lparr>table := (table b2)(i \<mapsto> p),
                                      queries := queries b2 @ [Insert p]\<rparr>
                          in (Some p, add_to_cache p b3))
                       else (None, b1))))"

section \<open>Sample inputs\<close>

text \<open>The keys of the dict \<open>data\<close> of \<open>get_displayname\<close>.\<close>

definition data_keys :: "ustr list" where
  "data_keys = [ascii ''phone number'', ascii ''username'', ascii ''full name'',
                ascii ''full name reversed'', ascii ''first name'', ascii ''last name'']"

text \<open>
  The shipped configuration: names are shown as \<open>{displayname} (Telegram)\<close>, cut at 100
  characters, and avatars are never removed.
\<close>

definition telegram_template :: simple_template where
  "telegram_template = \<lparr>prefix = [], suffix = ascii '' (Telegram)''\<rparr>"

definition default_config :: config where
  "default_config =
     \<lparr>displayname_preference = [ascii ''full name'', ascii ''username'', ascii ''phone number''],
      displayname_template = telegram_template,
      displayname_max_length = 100,
      allow_avatar_remove = False\<rparr>"

text \<open>A profile: account 5, first name Bob, a mutual contact, with no photo.\<close>

definition bob :: user where
  "bob = \<lparr>user_id = 5, first_name = Some (ascii ''Bob''), last_name = None,
          user_username = None, phone = None, deleted = False, bot = False,
          contact = True, user_photo = None\<rparr>"


text \<open>Two sources with id 7: an ordinary user, and a user logged in as a bot.\<close>

definition plain_source :: abstract_user where
  "plain_source = \<lparr>source_tgid = 7, is_relaybot = False, source_is_bot = False\<rparr>"

definition bot_source :: abstract_user where
  "bot_source = \<lparr>source_tgid = 7, is_relaybot = False, source_is_bot = True\<rparr>"

text \<open>
  Three worlds: one where every call succeeds, one where the presentation layer rejects
  the display name, one where that call raises something that is not a \<open>MatrixError\<close>.
\<close>

definition calm_world :: world where
  "calm_world =
     \<lparr>get_entity = Inr bob, set_displayname = None, get_input_entity = None,
      transfer_file_to_matrix = Inr (Some (ascii ''mxc://hs/abc'')), set_avatar_url = None,
      save = None\<rparr>"

definition rejecting_world :: world where
  "rejecting_world = calm_world\<lparr>set_displayname := Some MatrixError\<rparr>"

definition broken_world :: world where
  "broken_world = calm_world\<lparr>set_displayname := Some OtherException\<rparr>"

text \<open>
  The puppet of account 5 once it is named: the name came from source 9 at quality 99.
\<close>

definition named_puppet :: puppet where
  "named_puppet =
     (new_puppet 5)\<lparr>displayname := Some (ascii ''Bob (Telegram)''),
                    displayname_source := Some 9, displayname_quality := 99\<rparr>"

text \<open>The puppet of account 5 just after source 7 has named it from the profile.\<close>

definition bob_puppet :: puppet where
  "bob_puppet =
     (new_puppet 5)\<lparr>displayname := Some (ascii ''Bob (Telegram)''),
                    displayname_source := Some 7, displayname_quality := 99\<rparr>"

section \<open>Auxiliary facts\<close>

lemma strip_core:
  assumes pre: "\<forall>c\<in>set pre. ws c" and post: "\<forall>c\<in>set post. ws c"
    and core: "core = [] \<or> (\<not> ws (hd core) \<and> \<not> ws (last core))"
  shows "strip ws (pre @ core @ post) = core"
proof (cases "core = []")
  case True
  have "dropWhile ws (pre @ post) = []"
    using pre post by auto
  then show ?thesis using True by (simp only: strip_def append_Nil dropWhile.simps rev.simps)
next
  case False
  with core have h: "\<not> ws (hd core)" and l: "\<not> ws (last core)" by simp_all
  have a: "dropWhile ws (pre @ core @ post) = core @ post"
  proof -
    have "dropWhile ws (pre @ core @ post) = dropWhile ws (core @ post)"
      by (rule dropWhile_append2) (use pre in simp)
    also have "\<dots> = core @ post"
      using False h by (cases core) simp_all
    finally show ?thesis .
  qed
  obtain ys y where c: "core = ys @ [y]"
    using False by (cases core rule: rev_cases) simp_all
  have b: "dropWhile ws (rev post @ rev core) = dropWhile ws (rev core)"
    by (rule dropWhile_append2) (use post in simp)
  have "dropWhile ws (rev core) = rev core"
    using l c by simp
  with b show ?thesis
    by (simp add: strip_def a)
qed

lemma data_known: "k \<in> set data_keys \<Longrightarrow> data u k \<noteq> None"
  by (auto simp: data_keys_def data_def Let_def)

lemma preference_loop_returns:
  "set ps \<subseteq> set data_keys \<Longrightarrow> \<exists>name q. preference_loop (data u) ps n0 q0 = Inr (name, q)"
proof (induction ps arbitrary: n0 q0)
  case Nil
  then show ?case by simp
next
  case (Cons k ps)
  then obtain v where "data u k = Some v" using data_known [of k u] by auto
  with Cons show ?case by simp
qed

lemmas name_defs =
  filter_name_def strip_def whitespace_def category_Cf_def allowed_other_format_def ascii_def
  py_isspace_def join_space_def format_full_def str_int_def str_nat.simps

lemma get_displayname_bob:
  "get_displayname default_config bob True = Inr (ascii ''Bob (Telegram)'', 99)"
  by (simp add: get_displayname_def default_config_def bob_def data_def telegram_template_def
      name_defs)

lemma get_displayname_bob_stranger:
  "get_displayname default_config (bob\<lparr>contact := False\<rparr>) True
     = Inr (ascii ''Bob (Telegram)'', 99)"
  by (simp add: get_displayname_def default_config_def bob_def data_def telegram_template_def
      name_defs)


lemma slice_bob_telegram:
  "py_slice_to (ascii ''Bob (Telegram)'') (displayname_max_length default_config)
     = ascii ''Bob (Telegram)''"
  by (simp add: py_slice_to_def default_config_def ascii_def)

lemma bob_flags: "contact bob" "\<not> deleted bob" "\<not> bot bob" "user_username bob = None"
  by (simp_all add: bob_def)


lemma new_puppet_flags:
  "\<not> disable_updates (new_puppet i)" "displayname_contact (new_puppet i)"
  "displayname (new_puppet i) = None" "displayname_source (new_puppet i) = None"
  "displayname_quality (new_puppet i) = 0" "username (new_puppet i) = None"
  by (simp_all add: new_puppet_def)

lemma named_puppet_flags:
  "\<not> disable_updates named_puppet" "displayname_contact named_puppet"
  "displayname named_puppet = Some (ascii ''Bob (Telegram)'')"
  "displayname_source named_puppet = Some 9" "displayname_quality named_puppet = 99"
  by (simp_all add: named_puppet_def new_puppet_def)

section \<open>Name normalisation\<close>

text \<open>
  C5, as the spec has it: the name made of a blank, U+200B, a blank, \<open>Alice\<close>, U+200D
  and a blank normalises to \<open>Alice\<close> followed by U+200D. It does not: the zero-width
  joiner U+200D is itself in the set stripped from both ends, so the trailing one goes
  with the blank after it and the result is \<open>Alice\<close>.
\<close>

theorem filter_name_alice_counterexample:
  "filter_name (Some ([0x20, 0x200B, 0x20] @ ascii ''Alice'' @ [0x200D, 0x20])) = ascii ''Alice''
   \<and> filter_name (Some ([0x20, 0x200B, 0x20] @ ascii ''Alice'' @ [0x200D, 0x20]))
       \<noteq> ascii ''Alice'' @ [0x200D]"
  by (simp add: name_defs)

text \<open>
  C5, amended: that name normalises to \<open>Alice\<close>. In general, when a
  name is a run of characters of the strip set, then a core that neither starts nor ends
  with such a character, then another such run, normalisation keeps of the core exactly
  the characters that are not of category Cf or are the zero-width joiner or non-joiner;
  these two are kept inside the core only, being members of the strip set.
\<close>

theorem filter_name_strips_then_filters:
  "filter_name (Some ([0x20, 0x200B, 0x20] @ ascii ''Alice'' @ [0x200D, 0x20])) = ascii ''Alice''
   \<and> (\<forall>pre core post.
         set pre \<subseteq> set whitespace \<and> set post \<subseteq> set whitespace
         \<and> (core = [] \<or> (hd core \<notin> set whitespace \<and> last core \<notin> set whitespace))
         \<longrightarrow> filter_name (Some (pre @ core @ post))
               = filter (\<lambda>c. \<not> category_Cf c \<or> c = 0x200D \<or> c = 0x200C) core)
   \<and> 0x200D \<in> set whitespace \<and> 0x200C \<in> set whitespace"
proof (intro conjI allI impI)
  show "filter_name (Some ([0x20, 0x200B, 0x20] @ ascii ''Alice'' @ [0x200D, 0x20]))
          = ascii ''Alice''"
    by (simp add: name_defs)
next
  fix pre core post :: ustr
  assume h: "set pre \<subseteq> set whitespace \<and> set post \<subseteq> set whitespace
     \<and> (core = [] \<or> (hd core \<notin> set whitespace \<and> last core \<notin> set whitespace))"
  then have s: "strip (\<lambda>c. c \<in> set whitespace) (pre @ core @ post) = core"
    by (intro strip_core) auto
  have k: "(\<lambda>c. \<not> category_Cf c \<or> c \<in> set allowed_other_format)
             = (\<lambda>c. \<not> category_Cf c \<or> c = 0x200D \<or> c = 0x200C)"
    by (auto simp: allowed_other_format_def)
  show "filter_name (Some (pre @ core @ post))
          = filter (\<lambda>c. \<not> category_Cf c \<or> c = 0x200D \<or> c = 0x200C) core"
  proof (cases "pre @ core @ post = []")
    case True
    then show ?thesis by (simp add: filter_name_def)
  next
    case False
    then show ?thesis
      unfolding filter_name_def option.case k s by (simp only: if_False)
  qed
next
  show "0x200D \<in> set whitespace" by (simp add: whitespace_def)
next
  show "0x200C \<in> set whitespace" by (simp add: whitespace_def)
qed

theorem filter_name_strips_then_filters_witness:
  "set [0x20, 0x200C] \<subseteq> set whitespace \<and> set [0x200D, 0x09] \<subseteq> set whitespace
   \<and> hd ([0x61, 0x200D, 0x200B, 0x62] :: ustr) \<notin> set whitespace
   \<and> last ([0x61, 0x200D, 0x200B, 0x62] :: ustr) \<notin> set whitespace
   \<and> filter_name (Some ([0x20, 0x200C] @ [0x61, 0x200D, 0x200B, 0x62] @ [0x200D, 0x09]))
       = [0x61, 0x200D, 0x62]"
proof -
  have a: "set [0x20, 0x200C] \<subseteq> set whitespace \<and> set [0x200D, 0x09] \<subseteq> set whitespace"
    by (simp add: whitespace_def)
  have b: "hd ([0x61, 0x200D, 0x200B, 0x62] :: ustr) \<notin> set whitespace
           \<and> last ([0x61, 0x200D, 0x200B, 0x62] :: ustr) \<notin> set whitespace"
    by (simp add: whitespace_def)
  have "filter_name (Some ([0x20, 0x200C] @ [0x61, 0x200D, 0x200B, 0x62] @ [0x200D, 0x09]))
          = filter (\<lambda>c. \<not> category_Cf c \<or> c = 0x200D \<or> c = 0x200C)
                   [0x61, 0x200D, 0x200B, 0x62]"
    using filter_name_strips_then_filters a b by blast
  then show ?thesis using a b by (simp add: category_Cf_def)
qed

section \<open>Display-name resolution\<close>

text \<open>
  C6, as the spec has it: for a deleted account \<open>get_displayname\<close> returns exactly
  \<open>Deleted account <id>\<close> with quality 99, whatever the preference list holds. With the
  shipped template the name returned by default is \<open>Deleted account 5 (Telegram)\<close>, and
  a preference that is not a key of \<open>data\<close> makes the method raise \<open>KeyError\<close>.
\<close>

theorem get_displayname_deleted_counterexample:
  "get_displayname default_config (bob\<lparr>deleted := True\<rparr>) True
     = Inr (ascii ''Deleted account 5 (Telegram)'', 99)
   \<and> get_displayname default_config (bob\<lparr>deleted := True\<rparr>) True
       \<noteq> Inr (ascii ''Deleted account 5'', 99)
   \<and> get_displayname (default_config\<lparr>displayname_preference := [ascii ''nickname'']\<rparr>)
         (bob\<lparr>deleted := True\<rparr>) False
       = Inl (KeyError (ascii ''nickname''))"
  by (simp add: get_displayname_def default_config_def bob_def data_def telegram_template_def
      name_defs)

text \<open>
  C6, amended: for a deleted account and a preference list made of keys of \<open>data\<close>, the
  name resolved is \<open>Deleted account <id>\<close> and the quality is 99, whatever the other
  fields of the profile and the order of the preferences; \<open>get_displayname\<close> returns that
  name as it is when \<open>enable_format\<close> is false, and put into the display-name template
  when it is true.
\<close>

theorem get_displayname_deleted:
  assumes "deleted u" and "set (displayname_preference cfg) \<subseteq> set data_keys"
  shows "get_displayname cfg u False
           = Inr (ascii ''Deleted account '' @ str_int (user_id u), 99)
         \<and> get_displayname cfg u True
           = Inr (format_full (displayname_template cfg)
                    (ascii ''Deleted account '' @ str_int (user_id u)), 99)"
proof -
  obtain name q where
    "preference_loop (data u) (displayname_preference cfg) None 99 = Inr (name, q)"
    using preference_loop_returns [OF assms(2)] by blast
  with assms(1) show ?thesis
    by (simp add: get_displayname_def)
qed

theorem get_displayname_deleted_witness:
  "deleted (bob\<lparr>deleted := True\<rparr>)
   \<and> set (displayname_preference default_config) \<subseteq> set data_keys
   \<and> get_displayname default_config (bob\<lparr>deleted := True\<rparr>) False
       = Inr (ascii ''Deleted account 5'', 99)
   \<and> get_displayname default_config (bob\<lparr>deleted := True\<rparr>) True
       = Inr (ascii ''Deleted account 5 (Telegram)'', 99)"
proof -
  have a: "deleted (bob\<lparr>deleted := True\<rparr>)" by simp
  have b: "set (displayname_preference default_config) \<subseteq> set data_keys"
    by (simp add: default_config_def data_keys_def)
  show ?thesis
    using get_displayname_deleted [OF a b] a b
    by (simp add: default_config_def bob_def telegram_template_def name_defs)
qed

section \<open>Avatar update\<close>

text \<open>
  C8: when avatar removal is not allowed, \<open>update_avatar\<close> with an absent or an empty
  incoming photo returns \<open>False\<close>, leaves every field of the puppet as it was and
  makes no external call, whatever photo id is stored.
\<close>

theorem update_avatar_remove_gate:
  assumes "\<not> allow_avatar_remove cfg" and "ph = None \<or> ph = Some UserProfilePhotoEmpty"
  shows "update_avatar cfg w p source ph = (Inr False, p, [])"
  using assms by (auto simp: update_avatar_def)

theorem update_avatar_remove_gate_witness:
  "\<not> allow_avatar_remove default_config
   \<and> update_avatar default_config calm_world (named_puppet\<lparr>photo_id := Some (ascii ''42'')\<rparr>)
       plain_source (Some UserProfilePhotoEmpty)
     = (Inr False, named_puppet\<lparr>photo_id := Some (ascii ''42'')\<rparr>, [])
   \<and> update_avatar default_config calm_world (named_puppet\<lparr>photo_id := Some (ascii ''42'')\<rparr>)
       plain_source None
     = (Inr False, named_puppet\<lparr>photo_id := Some (ascii ''42'')\<rparr>, [])"
proof -
  have a: "\<not> allow_avatar_remove default_config" by (simp add: default_config_def)
  show ?thesis
    using a update_avatar_remove_gate [OF a, of "Some UserProfilePhotoEmpty"]
      update_avatar_remove_gate [OF a, of None]
    by simp
qed

section \<open>The identity cache\<close>

text \<open>
  C10: \<open>get_by_tgid\<close> called with \<open>None\<close> as account id returns \<open>None\<close> and leaves the
  two cache dicts, the table and the list of queries sent as they were, for either value
  of \<open>create\<close>.
\<close>

theorem get_by_tgid_none:
  "get_by_tgid b None create = (None, b)
   \<and> queries (snd (get_by_tgid b None create)) = queries b
   \<and> table (snd (get_by_tgid b None create)) = table b
   \<and> by_tgid (snd (get_by_tgid b None create)) = by_tgid b
   \<and> by_custom_mxid (snd (get_by_tgid b None create)) = by_custom_mxid b"
  by (simp add: get_by_tgid_def)

section \<open>Display-name update\<close>

text \<open>
  C1, as the spec has it: with a source that is no bot or relay and is not the stored
  source, a profile that marks the subject as a contact makes the update eligible. It does
  not: the third test of the chain is \<open>not info.contact\<close>, so for a named puppet with
  another source on record the method returns \<open>False\<close> at once, nothing computed.
\<close>

theorem update_displayname_contact_counterexample:
  "\<not> disable_updates named_puppet
   \<and> \<not> is_relaybot plain_source \<and> \<not> source_is_bot plain_source
   \<and> displayname_source named_puppet \<noteq> Some (source_tgid plain_source)
   \<and> contact bob
   \<and> allow_because named_puppet plain_source (User bob) = None
   \<and> update_displayname default_config calm_world named_puppet plain_source (User bob)
       = (Inr False, named_puppet, [])"
  by (simp add: update_displayname_def allow_because_def named_puppet_def new_puppet_def
      plain_source_def bob_def ascii_def)

text \<open>
  C1, amended: with updates enabled, a source that is no bot or relay and is not the
  stored source, a profile (a \<open>User\<close>) that does not mark the subject as a contact makes
  the update eligible, for the reason \<open>user is not a contact\<close>: the method clears
  \<open>displayname_contact\<close> and goes on to resolve the candidate and to compare it with the
  stored name. A profile that does mark the subject as a contact makes the method return
  \<open>False\<close> with nothing changed when both a source and a name are stored.
\<close>

theorem update_displayname_non_contact_eligible:
  assumes "\<not> disable_updates p"
    and "\<not> is_relaybot source" and "\<not> source_is_bot source"
    and "displayname_source p \<noteq> Some (source_tgid source)"
  shows "(\<not> contact u \<longrightarrow>
            allow_because p source (User u) = Some ''user is not a contact''
            \<and> update_displayname cfg w p source (User u)
                = (case get_displayname cfg u True of
                     Inl e \<Rightarrow> (Inl e, p\<lparr>displayname_contact := False\<rparr>, [])
                   | Inr (dn, quality) \<Rightarrow>
                       commit_displayname cfg w (p\<lparr>displayname_contact := False\<rparr>) source
                         dn quality))
         \<and> (contact u \<and> truthy_id (displayname_source p) \<and> truthy (displayname p) \<longrightarrow>
              allow_because p source (User u) = None
              \<and> update_displayname cfg w p source (User u) = (Inr False, p, []))"
  using assms
  by (auto simp: update_displayname_def allow_because_def fetch_info_def track_contact_def
      split: sum.splits prod.splits)

theorem update_displayname_non_contact_eligible_witness:
  "\<not> disable_updates named_puppet
   \<and> \<not> is_relaybot plain_source \<and> \<not> source_is_bot plain_source
   \<and> displayname_source named_puppet \<noteq> Some (source_tgid plain_source)
   \<and> \<not> contact (bob\<lparr>contact := False\<rparr>)
   \<and> allow_because named_puppet plain_source (User (bob\<lparr>contact := False\<rparr>))
       = Some ''user is not a contact''
   \<and> update_displayname default_config calm_world named_puppet plain_source
         (User (bob\<lparr>contact := False\<rparr>))
       = commit_displayname default_config calm_world
           (named_puppet\<lparr>displayname_contact := False\<rparr>) plain_source
           (ascii ''Bob (Telegram)'') 99"
proof -
  have a: "\<not> disable_updates named_puppet"
    by (simp add: named_puppet_def new_puppet_def)
  have b: "\<not> is_relaybot plain_source" and c: "\<not> source_is_bot plain_source"
    by (simp_all add: plain_source_def)
  have d: "displayname_source named_puppet \<noteq> Some (source_tgid plain_source)"
    by (simp add: named_puppet_def plain_source_def)
  have e: "\<not> contact (bob\<lparr>contact := False\<rparr>)" by simp
  show ?thesis
    using update_displayname_non_contact_eligible
            [OF a b c d, of "bob\<lparr>contact := False\<rparr>" default_config calm_world]
      a b c d e
    by (simp add: get_displayname_bob_stranger)
qed

text \<open>
  The update is eligible when updates are enabled, the chain on \<open>allow_because\<close> gives a
  reason, the profile is there (fetched, for an \<open>UpdateUserName\<close>), the contact tracking
  lets it pass, and the candidate is resolved. The contact tracking writes at most
  \<open>displayname_contact\<close>.
\<close>

lemma track_contact_Some:
  "track_contact p u = Some p' \<Longrightarrow> p' = p\<lparr>displayname_contact := contact u\<rparr>"
  by (auto simp: track_contact_def split: if_splits)

lemma update_displayname_eligible:
  assumes "\<not> disable_updates p"
    and "allow_because p source info = Some reason"
    and "fetch_info w p info = (Inr u, cs)"
    and "track_contact p u = Some p'"
    and "get_displayname cfg u True = Inr (dn, quality)"
  shows "update_displayname cfg w p source info
           = (case commit_displayname cfg w p' source dn quality of
                (r, p'', cs') \<Rightarrow> (r, p'', cs @ cs'))"
  using assms by (simp add: update_displayname_def)




text \<open>
  C2, as the spec has it: in an eligible update whose candidate is committed, when the
  \<open>set_displayname\<close> call fails, the three fields are rolled back and \<open>True\<close> is
  returned. The handler around the call is \<open>except MatrixError\<close>: when the call raises
  anything else, the method raises it in turn, returns nothing, and leaves the name, the
  source and the quality of the candidate in the puppet.
\<close>

theorem update_displayname_rollback_counterexample:
  "\<not> disable_updates (new_puppet 5)
   \<and> allow_because (new_puppet 5) plain_source (User bob) = Some ''no primary source set''
   \<and> track_contact (new_puppet 5) bob = Some (new_puppet 5)
   \<and> get_displayname default_config bob True = Inr (ascii ''Bob (Telegram)'', 99)
   \<and> Some (ascii ''Bob (Telegram)'') \<noteq> displayname (new_puppet 5)
   \<and> 99 \<ge> displayname_quality (new_puppet 5)
   \<and> set_displayname broken_world = Some OtherException
   \<and> update_displayname default_config broken_world (new_puppet 5) plain_source (User bob)
       = (Inl OtherException, bob_puppet, [SetDisplayname (ascii ''Bob (Telegram)'')])
   \<and> fst (update_displayname default_config broken_world (new_puppet 5) plain_source (User bob))
       \<noteq> Inr True
   \<and> displayname bob_puppet = Some (ascii ''Bob (Telegram)'')
   \<and> displayname bob_puppet \<noteq> Some []
   \<and> displayname_source bob_puppet = Some 7
   \<and> displayname_quality bob_puppet = 99"
proof -
  have a: "allow_because (new_puppet 5) plain_source (User bob) = Some ''no primary source set''"
    by (simp add: allow_because_def new_puppet_flags plain_source_def bob_flags)
  have b: "track_contact (new_puppet 5) bob = Some (new_puppet 5)"
    by (simp add: track_contact_def new_puppet_flags bob_flags)
  have c: "set_displayname broken_world = Some OtherException"
    by (simp add: broken_world_def)
  have d: "commit_displayname default_config broken_world (new_puppet 5) plain_source
             (ascii ''Bob (Telegram)'') 99
           = (Inl OtherException, bob_puppet, [SetDisplayname (ascii ''Bob (Telegram)'')])"
    by (simp add: commit_displayname_def slice_bob_telegram bob_puppet_def plain_source_def
        c new_puppet_def)
  have e: "update_displayname default_config broken_world (new_puppet 5) plain_source (User bob)
             = (Inl OtherException, bob_puppet, [SetDisplayname (ascii ''Bob (Telegram)'')])"
    by (simp add: update_displayname_def a b d fetch_info_def get_displayname_bob
        new_puppet_flags)
  have f: "displayname bob_puppet = Some (ascii ''Bob (Telegram)'')"
    "displayname_source bob_puppet = Some 7" "displayname_quality bob_puppet = 99"
    by (simp_all add: bob_puppet_def)
  have g: "ascii ''Bob (Telegram)'' \<noteq> []"
    by (simp add: ascii_def)
  show ?thesis
    using a b c e f g by (simp add: get_displayname_bob new_puppet_flags)
qed

text \<open>
  C2, amended: in an eligible update whose candidate is committed (it differs from the
  stored name and its quality is at least the stored one), when the \<open>set_displayname\<close>
  call fails with a \<open>MatrixError\<close>, the method leaves \<open>displayname\<close> empty,
  \<open>displayname_source\<close> unset and \<open>displayname_quality\<close> at 0, and still returns \<open>True\<close>.
\<close>

theorem update_displayname_rollback:
  assumes "\<not> disable_updates p"
    and "allow_because p source info = Some reason"
    and "fetch_info w p info = (Inr u, cs)"
    and "track_contact p u = Some p'"
    and "get_displayname cfg u True = Inr (dn, quality)"
    and "Some dn \<noteq> displayname p" and "quality \<ge> displayname_quality p"
    and "set_displayname w = Some MatrixError"
  shows "update_displayname cfg w p source info
           = (Inr True,
              p\<lparr>displayname := Some [], displayname_source := None, displayname_contact := contact u,
                displayname_quality := 0\<rparr>,
              cs @ [SetDisplayname (py_slice_to dn (displayname_max_length cfg))])
         \<and> fst (update_displayname cfg w p source info) = Inr True
         \<and> displayname (fst (snd (update_displayname cfg w p source info))) = Some []
         \<and> displayname_source (fst (snd (update_displayname cfg w p source info))) = None
         \<and> displayname_quality (fst (snd (update_displayname cfg w p source info))) = 0"
proof -
  have p': "p' = p\<lparr>displayname_contact := contact u\<rparr>"
    using assms(4) by (rule track_contact_Some)
  have u: "update_displayname cfg w p source info
             = (case commit_displayname cfg w p' source dn quality of
                  (r, p'', cs') \<Rightarrow> (r, p'', cs @ cs'))"
    using assms(1-5) by (rule update_displayname_eligible)
  show ?thesis
    unfolding u using assms(6-8)
    by (simp add: commit_displayname_def p' Let_def)
qed

theorem update_displayname_rollback_witness:
  "\<not> disable_updates (new_puppet 5)
   \<and> allow_because (new_puppet 5) plain_source (User bob) = Some ''no primary source set''
   \<and> fetch_info rejecting_world (new_puppet 5) (User bob) = (Inr bob, [])
   \<and> track_contact (new_puppet 5) bob = Some (new_puppet 5)
   \<and> get_displayname default_config bob True = Inr (ascii ''Bob (Telegram)'', 99)
   \<and> Some (ascii ''Bob (Telegram)'') \<noteq> displayname (new_puppet 5)
   \<and> 99 \<ge> displayname_quality (new_puppet 5)
   \<and> set_displayname rejecting_world = Some MatrixError
   \<and> update_displayname default_config rejecting_world (new_puppet 5) plain_source (User bob)
       = (Inr True, (new_puppet 5)\<lparr>displayname := Some []\<rparr>,
          [SetDisplayname (ascii ''Bob (Telegram)'')])"
proof -
  have a: "\<not> disable_updates (new_puppet 5)" by (simp add: new_puppet_def)
  have b: "allow_because (new_puppet 5) plain_source (User bob) = Some ''no primary source set''"
    by (simp add: allow_because_def new_puppet_def plain_source_def bob_def)
  have c: "fetch_info rejecting_world (new_puppet 5) (User bob) = (Inr bob, [])"
    by (simp add: fetch_info_def)
  have d: "track_contact (new_puppet 5) bob = Some (new_puppet 5)"
    by (simp add: track_contact_def new_puppet_def bob_def)
  note e = get_displayname_bob
  have f: "Some (ascii ''Bob (Telegram)'') \<noteq> displayname (new_puppet 5)"
    by (simp add: new_puppet_def)
  have g: "99 \<ge> displayname_quality (new_puppet 5)"
    by (simp add: new_puppet_def)
  have h: "set_displayname rejecting_world = Some MatrixError"
    by (simp add: rejecting_world_def)
  have i: "(new_puppet 5)\<lparr>displayname := Some [], displayname_source := None,
             displayname_contact := contact bob, displayname_quality := 0\<rparr>
           = (new_puppet 5)\<lparr>displayname := Some []\<rparr>"
    by (simp add: new_puppet_def bob_def)
  show ?thesis
    using update_displayname_rollback [OF a b c d e f g h] a b c d e f g h
    by (simp add: slice_bob_telegram i)
qed

text \<open>
  C7, as the spec has it: in an eligible update that does not overwrite, a bot or relay
  source, or an unset stored source, gets the source stamped and \<open>True\<close> returned; else
  \<open>False\<close> is returned with no field changed. The test before the stamp reads
  \<open>is_relaybot\<close> only, so a source that is a bot and not the relay bot is not stamped
  over a stored source; and the contact tracking that ran before may have cleared
  \<open>displayname_contact\<close> although \<open>False\<close> is returned.
\<close>

theorem update_displayname_stamp_counterexample:
  "source_is_bot bot_source
   \<and> allow_because named_puppet bot_source (User bob) = Some ''user is bot''
   \<and> get_displayname default_config bob True = Inr (ascii ''Bob (Telegram)'', 99)
   \<and> displayname named_puppet = Some (ascii ''Bob (Telegram)'')
   \<and> update_displayname default_config calm_world named_puppet bot_source (User bob)
       = (Inr False, named_puppet, [])
   \<and> \<not> source_is_bot plain_source \<and> \<not> is_relaybot plain_source
   \<and> displayname_source named_puppet = Some 9
   \<and> update_displayname default_config calm_world named_puppet plain_source
         (User (bob\<lparr>contact := False\<rparr>))
       = (Inr False, named_puppet\<lparr>displayname_contact := False\<rparr>, [])
   \<and> named_puppet\<lparr>displayname_contact := False\<rparr> \<noteq> named_puppet"
proof -
  have a: "update_displayname default_config calm_world named_puppet bot_source (User bob)
             = (Inr False, named_puppet, [])"
    by (simp add: update_displayname_def allow_because_def fetch_info_def track_contact_def
        commit_displayname_def get_displayname_bob named_puppet_flags bot_source_def bob_flags)
  have b: "update_displayname default_config calm_world named_puppet plain_source
             (User (bob\<lparr>contact := False\<rparr>))
           = (Inr False, named_puppet\<lparr>displayname_contact := False\<rparr>, [])"
    by (simp add: update_displayname_def allow_because_def fetch_info_def track_contact_def
        commit_displayname_def get_displayname_bob_stranger named_puppet_flags
        plain_source_def)
  have c: "named_puppet\<lparr>displayname_contact := False\<rparr> \<noteq> named_puppet"
    by (simp add: named_puppet_def new_puppet_def)
  have d: "allow_because named_puppet bot_source (User bob) = Some ''user is bot''"
    by (simp add: allow_because_def bot_source_def)
  show ?thesis
    using a b c d
    by (simp add: get_displayname_bob named_puppet_flags bot_source_def plain_source_def)
qed

text \<open>
  C7, amended: in an eligible update where the candidate equals the stored name or is of
  lower quality, if the source is the relay bot or \<open>displayname_source\<close> is \<open>None\<close>, the
  method sets \<open>displayname_source\<close> to the id of the source, leaves \<open>displayname\<close> and
  \<open>displayname_quality\<close> as they were and returns \<open>True\<close>; otherwise it returns \<open>False\<close>
  with \<open>displayname\<close>, \<open>displayname_source\<close> and \<open>displayname_quality\<close> as they were. In
  both cases no external call is made beyond the fetch of the profile, and apart from
  \<open>displayname_source\<close> the puppet is as the contact tracking left it.
\<close>

theorem update_displayname_stamp:
  assumes "\<not> disable_updates p"
    and "allow_because p source info = Some reason"
    and "fetch_info w p info = (Inr u, cs)"
    and "track_contact p u = Some p'"
    and "get_displayname cfg u True = Inr (dn, quality)"
    and "\<not> (Some dn \<noteq> displayname p \<and> quality \<ge> displayname_quality p)"
  shows "update_displayname cfg w p source info
           = (if is_relaybot source \<or> displayname_source p = None
                then (Inr True, p'\<lparr>displayname_source := Some (source_tgid source)\<rparr>, cs)
              else (Inr False, p', cs))
         \<and> displayname p' = displayname p
         \<and> displayname_source p' = displayname_source p
         \<and> displayname_quality p' = displayname_quality p"
proof -
  have p': "p' = p\<lparr>displayname_contact := contact u\<rparr>"
    using assms(4) by (rule track_contact_Some)
  have u: "update_displayname cfg w p source info
             = (case commit_displayname cfg w p' source dn quality of
                  (r, p'', cs') \<Rightarrow> (r, p'', cs @ cs'))"
    using assms(1-5) by (rule update_displayname_eligible)
  show ?thesis
    unfolding u using assms(6)
    by (auto simp: commit_displayname_def p')
qed

theorem update_displayname_stamp_witness:
  "\<not> disable_updates (named_puppet\<lparr>displayname_source := None\<rparr>)
   \<and> allow_because (named_puppet\<lparr>displayname_source := None\<rparr>) plain_source (User bob)
       = Some ''no primary source set''
   \<and> fetch_info calm_world (named_puppet\<lparr>displayname_source := None\<rparr>) (User bob)
       = (Inr bob, [])
   \<and> track_contact (named_puppet\<lparr>displayname_source := None\<rparr>) bob
       = Some (named_puppet\<lparr>displayname_source := None\<rparr>)
   \<and> get_displayname default_config bob True = Inr (ascii ''Bob (Telegram)'', 99)
   \<and> Some (ascii ''Bob (Telegram)'') = displayname (named_puppet\<lparr>displayname_source := None\<rparr>)
   \<and> update_displayname default_config calm_world (named_puppet\<lparr>displayname_source := None\<rparr>)
         plain_source (User bob)
       = (Inr True, named_puppet\<lparr>displayname_source := Some 7\<rparr>, [])"
proof -
  let ?p = "named_puppet\<lparr>displayname_source := None\<rparr>"
  have a: "\<not> disable_updates ?p" by (simp add: named_puppet_flags)
  have b: "allow_because ?p plain_source (User bob) = Some ''no primary source set''"
    by (simp add: allow_because_def plain_source_def bob_def)
  have c: "fetch_info calm_world ?p (User bob) = (Inr bob, [])"
    by (simp add: fetch_info_def)
  have d: "track_contact ?p bob = Some ?p"
    by (simp add: track_contact_def named_puppet_flags bob_def)
  note e = get_displayname_bob
  have f: "Some (ascii ''Bob (Telegram)'') = displayname ?p"
    by (simp add: named_puppet_flags)
  then have g: "\<not> (Some (ascii ''Bob (Telegram)'') \<noteq> displayname ?p
                  \<and> 99 \<ge> displayname_quality ?p)"
    by simp
  have h: "source_tgid plain_source = 7"
    by (simp add: plain_source_def)
  show ?thesis
    using update_displayname_stamp [OF a b c d e g] a b c d e f
    by (simp add: h)
qed

section \<open>\<open>update_info\<close>\<close>





end
